theory Spec2Isabelle
  imports Complex_Main
begin

section \<open>JavaScript numbers and arrays\<close>

text \<open>
  A JavaScript number is modelled as a real or the value NaN.  Rounding, overflow to the
  infinities and underflow to zero of IEEE doubles are not modelled: arithmetic on
  \<open>Num\<close> values is exact.  Reading an array beyond its length gives \<open>undefined\<close>,
  which arithmetic turns into NaN; \<open>item\<close> is that read followed by the conversion.
\<close>

datatype number = Num real | NaN

fun num_add :: "number \<Rightarrow> number \<Rightarrow> number" where
  "num_add (Num x) (Num y) = Num (x + y)"
| "num_add _ _ = NaN"

fun num_mul :: "number \<Rightarrow> number \<Rightarrow> number" where
  "num_mul (Num x) (Num y) = Num (x * y)"
| "num_mul _ _ = NaN"

definition item :: "real list \<Rightarrow> nat \<Rightarrow> number" where
  "item xs i = (if i < length xs then Num (xs ! i) else NaN)"

text \<open>
  \<open>Array.prototype.reduce\<close> with an initial value: the callback receives the
  accumulator, the element and its index, from left to right.
\<close>

fun reduce_from :: "('b \<Rightarrow> 'a \<Rightarrow> nat \<Rightarrow> 'b) \<Rightarrow> 'b \<Rightarrow> nat \<Rightarrow> 'a list \<Rightarrow> 'b" where
  "reduce_from f acc i [] = acc"
| "reduce_from f acc i (x # xs) = reduce_from f (f acc x i) (Suc i) xs"

definition reduce :: "('b \<Rightarrow> 'a \<Rightarrow> nat \<Rightarrow> 'b) \<Rightarrow> 'b \<Rightarrow> 'a list \<Rightarrow> 'b" where
  "reduce f init xs = reduce_from f init 0 xs"

fun num_sub :: "number \<Rightarrow> number \<Rightarrow> number" where
  "num_sub (Num x) (Num y) = Num (x - y)"
| "num_sub _ _ = NaN"

text \<open>
  \<open>Array.prototype.sort\<close> with a comparator.  ECMAScript treats a NaN result of the
  comparator as 0, requires the sort to be stable, and for a consistent comparator fixes
  the result: the one stable arrangement in which no element comes before another that
  the comparator puts strictly first.  \<open>js_sort\<close> computes that arrangement by
  insertion.  Where the comparator is inconsistent (it can be only through NaN here) the
  language leaves the order to the implementation, and \<open>js_sort\<close> is one outcome.
\<close>

fun positive :: "number \<Rightarrow> bool" where
  "positive (Num v) = (0 < v)"
| "positive NaN = False"

fun js_insert :: "('a \<Rightarrow> 'a \<Rightarrow> number) \<Rightarrow> 'a \<Rightarrow> 'a list \<Rightarrow> 'a list" where
  "js_insert cmp x [] = [x]"
| "js_insert cmp x (y # ys) =
     (if positive (cmp x y) then y # js_insert cmp x ys else x # y # ys)"

definition js_sort :: "('a \<Rightarrow> 'a \<Rightarrow> number) \<Rightarrow> 'a list \<Rightarrow> 'a list" where
  "js_sort cmp xs = foldr (js_insert cmp) xs []"

section \<open>Strings\<close>

text \<open>
  A string is a list of code units below 256 (the Latin-1 range of UTF-16), so that
  \<open>length\<close> is JavaScript's \<open>length\<close>.  \<open>is_space\<close> is the class \<open>\s\<close> of regular
  expressions in that range, which is also what \<open>trim\<close> removes; \<open>toLowerCase\<close>
  maps the letters A-Z and the accented capitals of Latin-1.
\<close>

definition is_space :: "char \<Rightarrow> bool" where
  "is_space c = (let n = (of_char c :: nat) in (9 \<le> n \<and> n \<le> 13) \<or> n = 32 \<or> n = 160)"

definition lower_char :: "char \<Rightarrow> char" where
  "lower_char c =
     (let n = (of_char c :: nat)
      in if (65 \<le> n \<and> n \<le> 90) \<or> (192 \<le> n \<and> n \<le> 222 \<and> n \<noteq> 215)
         then char_of (n + 32) else c)"

definition toLowerCase :: "string \<Rightarrow> string" where
  "toLowerCase s = map lower_char s"

definition trim :: "string \<Rightarrow> string" where
  "trim s = rev (dropWhile is_space (rev (dropWhile is_space s)))"

text \<open>\<open>s.includes(w)\<close>: \<open>w\<close> occurs in \<open>s\<close> at some position.\<close>

definition str_includes :: "string \<Rightarrow> string \<Rightarrow> bool" where
  "str_includes s w = list_ex (\<lambda>i. take (length w) (drop i s) = w) [0..<Suc (length s)]"

fun join :: "string \<Rightarrow> string list \<Rightarrow> string" where
  "join sep [] = []"
| "join sep [x] = x"
| "join sep (x # y # ys) = x @ sep @ join sep (y # ys)"

text \<open>
  \<open>s.split(/\s+/)\<close>: the pieces between the maximal runs of white space.  A run at the
  start or at the end of the string leaves an empty piece there, and the empty string
  splits into one empty piece.
\<close>

function split_ws :: "string \<Rightarrow> string list" where
  "split_ws [] = [[]]"
| "split_ws (c # cs) =
     (if is_space c then [] # split_ws (dropWhile is_space cs)
      else (case split_ws cs of [] \<Rightarrow> [[c]] | w # ws \<Rightarrow> (c # w) # ws))"
  by pat_completeness auto
termination
  by (relation "measure length") (auto simp: length_dropWhile_le less_Suc_eq_le)

section \<open>Objects used as tables\<close>

text \<open>
  An object literal used as a table from string keys to values is the list of its own
  properties in creation order.  Assigning to an existing key keeps its place; assigning
  a number to the key \<open>__proto__\<close> goes to the setter inherited from
  \<open>Object.prototype\<close>, which ignores it, and creates no property.  \<open>Object.keys\<close>
  lists the keys that are array indices (canonical decimal numerals below \<open>2^32 - 1\<close>)
  first, in ascending numeric order, then all other keys in creation order.
\<close>

type_synonym 'v js_object = "(string \<times> 'v) list"

definition obj_set :: "'v js_object \<Rightarrow> string \<Rightarrow> 'v \<Rightarrow> 'v js_object" where
  "obj_set obj k v =
     (if k = ''__proto__'' then obj
      else if k \<in> set (map fst obj) then map (\<lambda>(k', v'). if k' = k then (k', v) else (k', v')) obj
      else obj @ [(k, v)])"

definition obj_get :: "'v js_object \<Rightarrow> string \<Rightarrow> 'v option" where
  "obj_get obj k = map_of obj k"

definition is_digit :: "char \<Rightarrow> bool" where
  "is_digit c = (48 \<le> (of_char c :: nat) \<and> (of_char c :: nat) \<le> 57)"

definition digits_value :: "string \<Rightarrow> int" where
  "digits_value s = foldl (\<lambda>n c. 10 * n + (of_char c - 48)) 0 s"

definition is_array_index :: "string \<Rightarrow> bool" where
  "is_array_index s =
     (s \<noteq> [] \<and> list_all is_digit s \<and> (s = ''0'' \<or> hd s \<noteq> CHR ''0'') \<and>
      digits_value s < 4294967295)"

definition object_keys :: "'v js_object \<Rightarrow> string list" where
  "object_keys obj =
     (let ks = map fst obj
      in sort_key digits_value (filter is_array_index ks) @
         filter (\<lambda>k. \<not> is_array_index k) ks)"

section \<open>The catalog and the chat messages (types.ts)\<close>

record product =
  product_id :: string
  name :: string
  category :: string
  description :: string
  price :: real
  imageUrl :: string
  affiliateUrl :: string
  features :: "string list"

datatype chat_mode = TextMode | VoiceMode

datatype role = User | Assistant

record message =
  message_id :: string
  role :: role
  content :: string
  timestamp :: nat
  recommendation :: "product option"
  reason :: "string option"

text \<open>\<open>allProducts.find(p => p.id === id)\<close>: the first product with that id, if any.\<close>

definition find_product :: "product list \<Rightarrow> string \<Rightarrow> product option" where
  "find_product allProducts i = find (\<lambda>p. product_id p = i) allProducts"

section \<open>The lexical ranker (findRelevantProducts)\<close>

definition add_word_score :: "product \<Rightarrow> nat \<Rightarrow> string \<Rightarrow> nat" where
  "add_word_score product score word =
     (let score = (if str_includes (toLowerCase (name product)) word then score + 5 else score);
          score = (if str_includes (toLowerCase (category product)) word then score + 3 else score);
          score = (if str_includes (toLowerCase (join '' '' (features product))) word
                   then score + 2 else score);
          score = (if str_includes (toLowerCase (description product)) word then score + 1 else score)
      in score)"

definition product_score :: "string list \<Rightarrow> product \<Rightarrow> nat" where
  "product_score queryWords product = foldl (add_word_score product) 0 queryWords"

definition record_score :: "string list \<Rightarrow> nat js_object \<Rightarrow> product \<Rightarrow> nat js_object" where
  "record_score queryWords scores product =
     (let score = product_score queryWords product
      in if score > 0 then obj_set scores (product_id product) score else scores)"

text \<open>A missing table entry reads as \<open>undefined\<close>, which the subtraction turns into NaN.\<close>

definition score_of :: "nat js_object \<Rightarrow> string \<Rightarrow> number" where
  "score_of scores k = (case obj_get scores k of Some v \<Rightarrow> Num (real v) | None \<Rightarrow> NaN)"

definition findRelevantProducts :: "string \<Rightarrow> product list \<Rightarrow> product list" where
  "findRelevantProducts query allProducts =
     (let queryWords = filter (\<lambda>w. length w > 2) (split_ws (toLowerCase query))
      in if length queryWords = 0 then []
         else
           (let scores = foldl (record_score queryWords) [] allProducts;
                sortedProductIds =
                  js_sort (\<lambda>a b. num_sub (score_of scores b) (score_of scores a))
                    (object_keys scores)
            in List.map_filter (find_product allProducts) (take 3 sortedProductIds)))"

section \<open>Cosine similarity (netlify/functions/gemini.ts)\<close>

text \<open>
  The division of the last line is reached only when both magnitudes are non-zero, so
  its divisor is a non-zero real; a NaN dot product stays NaN.
\<close>

definition cosineSimilarity :: "real list \<Rightarrow> real list \<Rightarrow> number" where
  "cosineSimilarity vecA vecB =
     (let dotProduct = reduce (\<lambda>acc val i. num_add acc (num_mul (Num val) (item vecB i))) (Num 0) vecA;
          magA = sqrt (reduce (\<lambda>acc val i. acc + val * val) 0 vecA);
          magB = sqrt (reduce (\<lambda>acc val i. acc + val * val) 0 vecB)
      in if magA = 0 \<or> magB = 0 then Num 0
         else (case dotProduct of Num d \<Rightarrow> Num (d / (magA * magB)) | NaN \<Rightarrow> NaN))"

text \<open>The mathematical notions the specification names.\<close>

definition dot :: "real list \<Rightarrow> real list \<Rightarrow> real" where
  "dot a b = (\<Sum>(x, y)\<leftarrow>zip a b. x * y)"

definition magnitude :: "real list \<Rightarrow> real" where
  "magnitude a = sqrt (\<Sum>x\<leftarrow>a. x * x)"

section \<open>The retrieval function (netlify/functions/gemini.ts, handler)\<close>

text \<open>
  The two calls to the model provider and the read of the catalog file are the handler's
  collaborators.  Each is given by its outcome: a \<open>fetch\<close> either rejects, or resolves
  to a response that is not ok (with its status text), or resolves to an ok response
  with its payload.  The payload of the chat call is kept as the text found at
  \<open>candidates[0].content.parts[0].text\<close>, if there is one.  The conversion of a price
  to its decimal text is a parameter as well.
\<close>

datatype 'a fetched = Rejected string | NotOk string | Ok 'a

record services =
  readProducts :: "string + product list"
  embed :: "string list \<Rightarrow> real list list fetched"
  chat :: "string \<Rightarrow> string option fetched"
  show_price :: "real \<Rightarrow> string"

datatype call = ReadProducts | EmbedCall "string list" | ChatCall string

datatype response_body = ErrorBody string | ResultBody "string option"

record http_response =
  statusCode :: nat
  body :: response_body

text \<open>The request body after \<open>JSON.parse\<close>: not JSON at all, or an object with its prompt.\<close>

datatype request_body = Malformed | Parsed "string option"

record handler_event =
  httpMethod :: string
  event_body :: request_body

definition getEmbeddings :: "services \<Rightarrow> string list \<Rightarrow> string + real list list" where
  "getEmbeddings sv texts =
     (case embed sv texts of
        Rejected e \<Rightarrow> Inl e
      | NotOk statusText \<Rightarrow> Inl (''Failed to get embeddings: '' @ statusText)
      | Ok embeddings \<Rightarrow> Inr embeddings)"

definition product_doc :: "product \<Rightarrow> string" where
  "product_doc p =
     ''Product: '' @ name p @ ''. Description: '' @ description p @ ''. Features: '' @
     join '', '' (features p) @ ''.''"

text \<open>
  Step 4 of the handler: one similarity per product embedding, paired with the products
  by position (a product beyond the embeddings gets \<open>undefined\<close>, that is NaN in the
  comparator), sorted by descending similarity, and cut to the first three.
\<close>

definition similarity_at :: "number list \<Rightarrow> nat \<Rightarrow> number" where
  "similarity_at similarities i = (if i < length similarities then similarities ! i else NaN)"

definition rank_products :: "product list \<Rightarrow> real list list \<Rightarrow> (product \<times> number) list" where
  "rank_products products embeddings =
     (let similarities =
            (case embeddings of [] \<Rightarrow> []
             | queryEmbedding # productEmbeddings \<Rightarrow>
                 map (\<lambda>prodEmb. cosineSimilarity queryEmbedding prodEmb) productEmbeddings);
          productsWithSimilarity =
            map (\<lambda>(i, product). (product, similarity_at similarities i))
              (zip [0..<length products] products);
          sorted = js_sort (\<lambda>a b. num_sub (snd b) (snd a)) productsWithSimilarity;
          topK = 3
      in take topK sorted)"

definition product_context :: "services \<Rightarrow> (product \<times> number) list \<Rightarrow> string" where
  "product_context sv relevantProducts =
     join [CHR 0x0A]
       (map (\<lambda>(p, _). ''- '' @ name p @ '' ($'' @ show_price sv (price p) @ ''): '' @ description p)
          relevantProducts)"

definition augmented_prompt :: "string \<Rightarrow> string \<Rightarrow> string" where
  "augmented_prompt productContext prompt =
     ''You are a helpful and enthusiastic AI assistant for \"Gadgets and Those,\" an online tech store. Your goal is to help users discover the perfect gadgets for their needs.'' @
     [CHR 0x0A, CHR 0x0A] @
     ''Based on the user's query, here are some products from our catalog that seem like a good fit:'' @
     [CHR 0x0A] @ productContext @ [CHR 0x0A, CHR 0x0A] @
     ''Now, answer the user's query conversationally. If the products are a good match, explain why. If they aren't a great match, you can say so and ask for more details.'' @
     [CHR 0x0A] @ ''User's query: \"'' @ prompt @ ''\"''"

text \<open>
  The body of the handler's \<open>try\<close>: \<open>Inl\<close> is the message of the error thrown, \<open>Inr\<close>
  the response returned.  The second component lists the collaborators called, in order.
\<close>

definition handler_try :: "services \<Rightarrow> handler_event \<Rightarrow> (string + http_response) \<times> call list" where
  "handler_try sv event =
     (case event_body event of
        Malformed \<Rightarrow> (Inl ''Unexpected token in JSON'', [])
      | Parsed p \<Rightarrow>
          (case (case p of None \<Rightarrow> [] | Some t \<Rightarrow> t) of
             [] \<Rightarrow> (Inr \<lparr>statusCode = 400, body = ErrorBody ''Prompt is required''\<rparr>, [])
           | c # cs \<Rightarrow>
               (let prompt = c # cs
                in case readProducts sv of
                     Inl e \<Rightarrow> (Inl e, [ReadProducts])
                   | Inr products \<Rightarrow>
                       (let productDocs = map product_doc products;
                            allTexts = prompt # productDocs
                        in case getEmbeddings sv allTexts of
                             Inl e \<Rightarrow> (Inl e, [ReadProducts, EmbedCall allTexts])
                           | Inr embeddings \<Rightarrow>
                               (let relevantProducts = rank_products products embeddings;
                                    productContext = product_context sv relevantProducts;
                                    augmentedPrompt = augmented_prompt productContext prompt;
                                    calls = [ReadProducts, EmbedCall allTexts, ChatCall augmentedPrompt]
                                in case chat sv augmentedPrompt of
                                     Rejected e \<Rightarrow> (Inl e, calls)
                                   | NotOk statusText \<Rightarrow>
                                       (Inl (''Failed to get chat response: '' @ statusText), calls)
                                   | Ok chatResult \<Rightarrow>
                                       (Inr \<lparr>statusCode = 200, body = ResultBody chatResult\<rparr>,
                                        calls))))))"

definition handler :: "services \<Rightarrow> string option \<Rightarrow> handler_event \<Rightarrow> http_response \<times> call list" where
  "handler sv apiKey event =
     (if httpMethod event \<noteq> ''POST''
      then (\<lparr>statusCode = 405, body = ErrorBody ''Method Not Allowed''\<rparr>, [])
      else if apiKey = None \<or> apiKey = Some []
      then (\<lparr>statusCode = 500, body = ErrorBody ''API key not configured''\<rparr>, [])
      else (case handler_try sv event of
              (Inl message, calls) \<Rightarrow>
                (\<lparr>statusCode = 500,
                  body = ErrorBody (if message = [] then ''Internal server error'' else message)\<rparr>,
                 calls)
            | (Inr response, calls) \<Rightarrow> (response, calls)))"

section \<open>The chat component (ChatInterface)\<close>

text \<open>
  The state of one mounted chat component: its React state (\<open>mode\<close>, \<open>messages\<close>,
  \<open>inputText\<close>, \<open>isTyping\<close>, \<open>isVoiceActive\<close>), its refs, and what it has done to the
  world around it: the alerts shown, the lines written to the console, the microphone
  streams obtained and not stopped, the audio contexts created and not closed, and the
  tool responses sent back on the voice channel.  A ref that is \<open>null\<close> is \<open>None\<close> (or
  \<open>False\<close> for the chat handle, whose content is not looked at).
\<close>

datatype context_state = Running | Closed

datatype session_state = SessionOpen | SessionClosed

record audio_source =
  startAt :: real
  duration :: real

record chat_interface =
  mode :: chat_mode
  messages :: "message list"
  inputText :: string
  isTyping :: bool
  isVoiceActive :: bool
  chatSessionRef :: bool
  audioContextRef :: "(context_state \<times> context_state) option"
  voiceSessionRef :: "session_state option"
  nextStartTimeRef :: real
  audioSourcesRef :: "audio_source list"
  alerts :: "string list"
  console :: "string list"
  micStreams :: nat
  openContexts :: nat
  toolResponses :: "(string \<times> string) list"

definition initial :: chat_interface where
  "initial =
     \<lparr>mode = TextMode, messages = [], inputText = [], isTyping = False, isVoiceActive = False,
      chatSessionRef = False, audioContextRef = None, voiceSessionRef = None,
      nextStartTimeRef = 0, audioSourcesRef = [], alerts = [], console = [],
      micStreams = 0, openContexts = 0, toolResponses = []\<rparr>"

text \<open>\<open>Date.now().toString()\<close>: a natural number in decimal.\<close>

fun decimal :: "nat \<Rightarrow> string" where
  "decimal n =
     (if n < 10 then [char_of (48 + n)] else decimal (n div 10) @ [char_of (48 + n mod 10)])"

declare decimal.simps [simp del]

text \<open>The two reads of the clock in \<open>addMessage\<close>, for the id and for the time stamp of
  the message, are taken to give the same value.\<close>

definition addMessage ::
  "nat \<Rightarrow> role \<Rightarrow> string \<Rightarrow> product option \<Rightarrow> string option \<Rightarrow> chat_interface \<Rightarrow> chat_interface" where
  "addMessage now r c rec rsn st =
     st\<lparr>messages := messages st @
          [\<lparr>message_id = decimal now, role = r, content = c, timestamp = now,
            recommendation = rec, reason = rsn\<rparr>]\<rparr>"

text \<open>An awaited promise either rejects or resolves to a value.\<close>

datatype 'a awaited = Throws | Resolves 'a

definition fallback_text :: string where
  "fallback_text = ''I hit a snag in the comms. What was that again?''"

definition greeting_fallback_text :: string where
  "greeting_fallback_text = ''Hey! Gadget Scout here. What are we optimizing today?''"

definition greeting_prompt :: "product list \<Rightarrow> string" where
  "greeting_prompt products =
     ''Initiate discovery mode. Greet the user with the Deal of the Day and a scout-like welcome. Mention that you have '' @
     decimal (length products) @ '' gadgets ready to discover.''"

subsection \<open>The component that calls the model with a tool (the ChatInterface of types.ts)\<close>

record recommend_args =
  productId :: string
  reasoning :: string

record function_call =
  fc_id :: string
  fc_name :: string
  fc_args :: recommend_args

record ai_response =
  response_text :: "string option"
  functionCalls :: "function_call list option"

definition processAiResponse ::
  "product list \<Rightarrow> nat \<Rightarrow> ai_response \<Rightarrow> chat_interface \<Rightarrow> chat_interface" where
  "processAiResponse products now response st =
     (let (recommendation, reason) =
            (case functionCalls response of
               Some (call # _) \<Rightarrow>
                 (if fc_name call = ''recommend_product''
                  then (find_product products (productId (fc_args call)),
                        Some (reasoning (fc_args call)))
                  else (None, None))
             | _ \<Rightarrow> (None, None));
          text = (case response_text response of Some t \<Rightarrow> t | None \<Rightarrow> [])
      in if text \<noteq> [] \<or> recommendation \<noteq> None
         then addMessage now Assistant text recommendation reason st
         else st)"

text \<open>
  \<open>handleTextSubmit\<close> runs up to its \<open>await\<close>, and later from it.  The first part
  returns the message sent to the model, or \<open>None\<close> when the submission is turned
  down; creating the chat handle is local and does not fail.  The second part gets the
  outcome of the call.
\<close>

definition augmented_user_message :: "product list \<Rightarrow> string \<Rightarrow> string" where
  "augmented_user_message relevantProducts userMsg =
     (if length relevantProducts > 0
      then (let productContext =
                  join [CHR 0x0A]
                    (map (\<lambda>p. ''- ID: '' @ product_id p @ '', Name: '' @ name p @ '', Desc: '' @
                                description p) relevantProducts)
            in ''Based on my query, I found these potentially relevant products in your catalog:'' @
               [CHR 0x0A] @ productContext @ [CHR 0x0A, CHR 0x0A] @
               ''Please consider this context when answering my query: \"'' @ userMsg @ ''\"'')
      else userMsg)"

definition handleTextSubmit_start ::
  "product list \<Rightarrow> nat \<Rightarrow> chat_interface \<Rightarrow> chat_interface \<times> string option" where
  "handleTextSubmit_start products now st =
     (if trim (inputText st) = [] \<or> isTyping st then (st, None)
      else
        (let userMsg = trim (inputText st);
             st = st\<lparr>inputText := []\<rparr>;
             st = addMessage now User userMsg None None st;
             st = st\<lparr>isTyping := True\<rparr>;
             st = (if \<not> chatSessionRef st then st\<lparr>chatSessionRef := True\<rparr> else st);
             relevantProducts = findRelevantProducts userMsg products
         in (st, Some (augmented_user_message relevantProducts userMsg))))"

definition handleTextSubmit_resume ::
  "product list \<Rightarrow> nat \<Rightarrow> ai_response awaited \<Rightarrow> chat_interface \<Rightarrow> chat_interface" where
  "handleTextSubmit_resume products now outcome st =
     (let st = (case outcome of
                  Resolves response \<Rightarrow> processAiResponse products now response st
                | Throws \<Rightarrow> addMessage now Assistant fallback_text None None st)
      in st\<lparr>isTyping := False\<rparr>)"

text \<open>The greeting turn (\<open>initChat\<close>), started by the effect when there are no messages
  and the catalog is not empty.\<close>

definition initChat_start :: "product list \<Rightarrow> chat_interface \<Rightarrow> chat_interface \<times> string option" where
  "initChat_start products st =
     (if length (messages st) = 0 \<and> length products > 0
      then (st\<lparr>chatSessionRef := True, isTyping := True\<rparr>, Some (greeting_prompt products))
      else (st, None))"

definition initChat_resume ::
  "product list \<Rightarrow> nat \<Rightarrow> ai_response awaited \<Rightarrow> chat_interface \<Rightarrow> chat_interface" where
  "initChat_resume products now outcome st =
     (let st = (case outcome of
                  Resolves response \<Rightarrow> processAiResponse products now response st
                | Throws \<Rightarrow> addMessage now Assistant greeting_fallback_text None None st)
      in st\<lparr>isTyping := False\<rparr>)"

subsection \<open>The voice session of that component\<close>

text \<open>
  \<open>startVoiceSession\<close> is given the outcomes of its two awaits: whether the browser
  grants the microphone, and whether the live channel opens.  The two awaits are taken
  in one step; what a toggle in between would do is not part of this model.
\<close>

definition startVoiceSession :: "bool \<Rightarrow> bool \<Rightarrow> chat_interface \<Rightarrow> chat_interface" where
  "startVoiceSession micGranted channelOpens st =
     (if \<not> micGranted
      then st\<lparr>console := console st @ [''Failed to start voice:''], mode := TextMode\<rparr>
      else
        (let st = st\<lparr>micStreams := Suc (micStreams st)\<rparr>;
             st = st\<lparr>openContexts := openContexts st + 2\<rparr>;
             st = st\<lparr>audioContextRef := Some (Running, Running)\<rparr>
         in if \<not> channelOpens
            then st\<lparr>console := console st @ [''Failed to start voice:''], mode := TextMode\<rparr>
            else st\<lparr>voiceSessionRef := Some SessionOpen, isVoiceActive := True\<rparr>))"

definition close_context :: "context_state \<Rightarrow> nat \<Rightarrow> context_state \<times> nat" where
  "close_context c n = (case c of Running \<Rightarrow> (Closed, n - 1) | Closed \<Rightarrow> (Closed, n))"

definition stopVoiceSession :: "chat_interface \<Rightarrow> chat_interface" where
  "stopVoiceSession st =
     (let st = (case voiceSessionRef st of
                  Some _ \<Rightarrow> st\<lparr>voiceSessionRef := Some SessionClosed\<rparr>
                | None \<Rightarrow> st);
          st = (case audioContextRef st of
                  Some (input, output) \<Rightarrow>
                    (let (input', n) = close_context input (openContexts st);
                         (output', n') = close_context output n
                     in st\<lparr>audioContextRef := Some (input', output'), openContexts := n'\<rparr>)
                | None \<Rightarrow> st)
      in st\<lparr>isVoiceActive := False\<rparr>)"

definition toggleMode :: "bool \<Rightarrow> bool \<Rightarrow> chat_interface \<Rightarrow> chat_interface" where
  "toggleMode micGranted channelOpens st =
     (if mode st = TextMode
      then startVoiceSession micGranted channelOpens (st\<lparr>mode := VoiceMode\<rparr>)
      else (stopVoiceSession st)\<lparr>mode := TextMode\<rparr>)"

text \<open>
  A message of the live channel: its tool calls if any, the duration of the audio buffer
  decoded from its first part if it carries audio, and the interruption flag.
\<close>

record live_message =
  toolCall :: "function_call list option"
  audio :: "real option"
  interrupted :: bool

definition handle_tool_call ::
  "product list \<Rightarrow> nat \<Rightarrow> chat_interface \<Rightarrow> function_call \<Rightarrow> chat_interface" where
  "handle_tool_call products now st fc =
     (if fc_name fc = ''recommend_product''
      then
        (let args = fc_args fc;
             st = (case find_product products (productId args) of
                     Some prd \<Rightarrow>
                       addMessage now Assistant (reasoning args) (Some prd) (Some (reasoning args)) st
                   | None \<Rightarrow> st)
         in st\<lparr>toolResponses := toolResponses st @ [(fc_id fc, fc_name fc)]\<rparr>)
      else st)"

text \<open>
  Scheduling one audio segment: the cursor is first raised to the output clock, the
  segment starts at the cursor, and the cursor moves on by the segment's duration.
\<close>

definition schedule_segment :: "real \<Rightarrow> real \<Rightarrow> chat_interface \<Rightarrow> chat_interface" where
  "schedule_segment currentTime d st =
     (let st = st\<lparr>nextStartTimeRef := max (nextStartTimeRef st) currentTime\<rparr>;
          source = \<lparr>startAt = nextStartTimeRef st, duration = d\<rparr>;
          st = st\<lparr>nextStartTimeRef := nextStartTimeRef st + d\<rparr>
      in st\<lparr>audioSourcesRef := audioSourcesRef st @ [source]\<rparr>)"

definition interrupt :: "chat_interface \<Rightarrow> chat_interface" where
  "interrupt st = st\<lparr>audioSourcesRef := [], nextStartTimeRef := 0\<rparr>"

text \<open>
  \<open>onmessage\<close>.  With audio and no audio contexts the handler stops at the
  destructuring of \<open>audioContextRef.current\<close>, after the tool calls.  The decoding
  that is awaited between raising the cursor and starting the segment is taken to be
  over before the next message is handled, so that a message is handled in one step.
\<close>

definition onmessage ::
  "product list \<Rightarrow> nat \<Rightarrow> real \<Rightarrow> live_message \<Rightarrow> chat_interface \<Rightarrow> chat_interface" where
  "onmessage products now currentTime message st =
     (let st = (case toolCall message of
                  Some calls \<Rightarrow> foldl (handle_tool_call products now) st calls
                | None \<Rightarrow> st)
      in case (audio message, audioContextRef st) of
           (Some d, None) \<Rightarrow> st
         | (Some d, Some _) \<Rightarrow>
             (let st = schedule_segment currentTime d st
              in if interrupted message then interrupt st else st)
         | (None, _) \<Rightarrow> (if interrupted message then interrupt st else st))"


subsection \<open>The component that calls the retrieval function (components/ChatInterface.tsx)\<close>

definition handleTextSubmit_fn_start :: "nat \<Rightarrow> chat_interface \<Rightarrow> chat_interface \<times> string option" where
  "handleTextSubmit_fn_start now st =
     (if trim (inputText st) = [] \<or> isTyping st then (st, None)
      else
        (let userMsg = trim (inputText st);
             st = st\<lparr>inputText := []\<rparr>;
             st = addMessage now User userMsg None None st;
             st = st\<lparr>isTyping := True\<rparr>
         in (st, Some userMsg)))"

text \<open>A response is ok when its status is in the range 200 to 299.\<close>

definition response_ok :: "http_response \<Rightarrow> bool" where
  "response_ok r = (200 \<le> statusCode r \<and> statusCode r \<le> 299)"

definition candidate_text :: "http_response \<Rightarrow> string" where
  "candidate_text r = (case body r of ResultBody (Some t) \<Rightarrow> t | _ \<Rightarrow> [])"

definition handleTextSubmit_fn_resume ::
  "nat \<Rightarrow> http_response awaited \<Rightarrow> chat_interface \<Rightarrow> chat_interface" where
  "handleTextSubmit_fn_resume now outcome st =
     (let st = (case outcome of
                  Resolves response \<Rightarrow>
                    (if \<not> response_ok response
                     then addMessage now Assistant fallback_text None None st
                     else addMessage now Assistant (candidate_text response) None None st)
                | Throws \<Rightarrow> addMessage now Assistant fallback_text None None st)
      in st\<lparr>isTyping := False\<rparr>)"

definition initChat_fn_start :: "product list \<Rightarrow> chat_interface \<Rightarrow> chat_interface \<times> string option" where
  "initChat_fn_start products st =
     (if length (messages st) = 0 \<and> length products > 0
      then (st\<lparr>isTyping := True\<rparr>, Some (greeting_prompt products))
      else (st, None))"

definition initChat_fn_resume ::
  "nat \<Rightarrow> http_response awaited \<Rightarrow> chat_interface \<Rightarrow> chat_interface" where
  "initChat_fn_resume now outcome st =
     (let st = (case outcome of
                  Resolves response \<Rightarrow>
                    (if \<not> response_ok response
                     then addMessage now Assistant greeting_fallback_text None None st
                     else addMessage now Assistant (candidate_text response) None None st)
                | Throws \<Rightarrow> addMessage now Assistant greeting_fallback_text None None st)
      in st\<lparr>isTyping := False\<rparr>)"

definition voice_notice :: string where
  "voice_notice =
     ''Voice Discovery is currently undergoing a security update. Please use Text Discovery for now!''"

definition startVoiceSession_fn :: "chat_interface \<Rightarrow> chat_interface" where
  "startVoiceSession_fn st = st\<lparr>alerts := alerts st @ [voice_notice], mode := TextMode\<rparr>"

definition toggleMode_fn :: "chat_interface \<Rightarrow> chat_interface" where
  "toggleMode_fn st =
     (if mode st = TextMode then startVoiceSession_fn st
      else (stopVoiceSession st)\<lparr>mode := TextMode\<rparr>)"

text \<open>
  One turn of the deployed pair: the component sends the trimmed text to the retrieval
  function, the function answers, the component resumes.
\<close>

definition text_turn ::
  "services \<Rightarrow> string option \<Rightarrow> nat \<Rightarrow> nat \<Rightarrow> chat_interface \<Rightarrow> chat_interface \<times> call list" where
  "text_turn sv apiKey now later st =
     (case handleTextSubmit_fn_start now st of
        (st', None) \<Rightarrow> (st', [])
      | (st', Some prompt) \<Rightarrow>
          (let (response, calls) =
                 handler sv apiKey \<lparr>httpMethod = ''POST'', event_body = Parsed (Some prompt)\<rparr>
           in (handleTextSubmit_fn_resume later (Resolves response) st', calls)))"

section \<open>Text sessions as transition systems\<close>

text \<open>
  A text session is the component's state together with the catalog it is rendered with
  and the calls that are suspended at their \<open>await\<close>.  A suspended call keeps the catalog
  of the render that started it.  The component is mounted with the catalog the page
  has at that moment; the page loads the catalog once, which replaces an empty catalog
  and runs the greeting effect again.  The user edits the input and submits; a suspended
  call resumes with the outcome of its request.
\<close>

datatype pending = Greeting "product list" | Turn "product list"

definition sent :: "string option \<Rightarrow> pending \<Rightarrow> pending list" where
  "sent request p = (case request of None \<Rightarrow> [] | Some _ \<Rightarrow> [p])"

inductive reachable :: "product list \<times> chat_interface \<times> pending list \<Rightarrow> bool" where
  mount:
    "initChat_start products initial = (st, request) \<Longrightarrow>
     reachable (products, st, sent request (Greeting products))"
| catalog_loaded:
    "reachable ([], st, ps) \<Longrightarrow> initChat_start products st = (st', request) \<Longrightarrow>
     reachable (products, st', ps @ sent request (Greeting products))"
| typed:
    "reachable (products, st, ps) \<Longrightarrow> reachable (products, st\<lparr>inputText := t\<rparr>, ps)"
| submit:
    "reachable (products, st, ps) \<Longrightarrow> handleTextSubmit_start products now st = (st', request) \<Longrightarrow>
     reachable (products, st', ps @ sent request (Turn products))"
| turn_resumes:
    "reachable (products, st, ps @ Turn captured # ps') \<Longrightarrow>
     reachable (products, handleTextSubmit_resume captured now outcome st, ps @ ps')"
| greeting_resumes:
    "reachable (products, st, ps @ Greeting captured # ps') \<Longrightarrow>
     reachable (products, initChat_resume captured now outcome st, ps @ ps')"

inductive reachable_fn :: "product list \<times> chat_interface \<times> pending list \<Rightarrow> bool" where
  mount_fn:
    "initChat_fn_start products initial = (st, request) \<Longrightarrow>
     reachable_fn (products, st, sent request (Greeting products))"
| catalog_loaded_fn:
    "reachable_fn ([], st, ps) \<Longrightarrow> initChat_fn_start products st = (st', request) \<Longrightarrow>
     reachable_fn (products, st', ps @ sent request (Greeting products))"
| typed_fn:
    "reachable_fn (products, st, ps) \<Longrightarrow> reachable_fn (products, st\<lparr>inputText := t\<rparr>, ps)"
| submit_fn:
    "reachable_fn (products, st, ps) \<Longrightarrow> handleTextSubmit_fn_start now st = (st', request) \<Longrightarrow>
     reachable_fn (products, st', ps @ sent request (Turn products))"
| turn_resumes_fn:
    "reachable_fn (products, st, ps @ Turn captured # ps') \<Longrightarrow>
     reachable_fn (products, handleTextSubmit_fn_resume now outcome st, ps @ ps')"
| greeting_resumes_fn:
    "reachable_fn (products, st, ps @ Greeting captured # ps') \<Longrightarrow>
     reachable_fn (products, initChat_fn_resume now outcome st, ps @ ps')"

section \<open>Notions used to state the properties\<close>

text \<open>The message a submission appends for the user, and the fixed fallback message.\<close>

definition user_message :: "nat \<Rightarrow> string \<Rightarrow> message" where
  "user_message now t =
     \<lparr>message_id = decimal now, role = User, content = t, timestamp = now,
      recommendation = None, reason = None\<rparr>"

definition fallback_message :: "nat \<Rightarrow> message" where
  "fallback_message now =
     \<lparr>message_id = decimal now, role = Assistant, content = fallback_text, timestamp = now,
      recommendation = None, reason = None\<rparr>"

text \<open>
  For the component that calls the retrieval function, the model call has failed when
  the \<open>fetch\<close> throws or its response is not ok.  A collaborator of the function has
  failed when its \<open>fetch\<close> rejects or answers with a status that is not ok.
\<close>

definition call_failed :: "http_response awaited \<Rightarrow> bool" where
  "call_failed outcome = (case outcome of Throws \<Rightarrow> True | Resolves r \<Rightarrow> \<not> response_ok r)"


text \<open>
  The invariant of a text session: the typing flag is up exactly when a call is
  suspended, at most one call is suspended, a suspended turn has left the user's message
  in the list, and a suspended greeting means that the catalog is loaded.
\<close>

definition one_turn :: "product list \<times> chat_interface \<times> pending list \<Rightarrow> bool" where
  "one_turn c =
     (case c of (products, st, ps) \<Rightarrow>
        (isTyping st \<longleftrightarrow> ps \<noteq> []) \<and> length ps \<le> 1 \<and>
        (\<forall>captured. ps = [Turn captured] \<longrightarrow> messages st \<noteq> []) \<and>
        (\<forall>captured. ps = [Greeting captured] \<longrightarrow> products \<noteq> []))"

text \<open>
  A comparator sorts a list in descending order of a key when, on the elements of the
  list, it puts the second argument first exactly when that one has the greater key.
  The lexical score of a product for a query is the score \<open>findRelevantProducts\<close>
  computes for it; \<open>similarity\<close> reads a similarity that is a number.
\<close>

definition descending_by :: "('a \<Rightarrow> real) \<Rightarrow> ('a \<Rightarrow> 'a \<Rightarrow> number) \<Rightarrow> 'a list \<Rightarrow> bool" where
  "descending_by f cmp xs = (\<forall>a \<in> set xs. \<forall>b \<in> set xs. positive (cmp a b) = (f a < f b))"

definition lexical_score :: "string \<Rightarrow> product \<Rightarrow> nat" where
  "lexical_score query p =
     product_score (filter (\<lambda>w. length w > 2) (split_ws (toLowerCase query))) p"

definition by_lexical_score :: "string \<Rightarrow> product \<Rightarrow> product \<Rightarrow> number" where
  "by_lexical_score query a b =
     num_sub (Num (real (lexical_score query b))) (Num (real (lexical_score query a)))"

fun similarity :: "number \<Rightarrow> real" where
  "similarity (Num v) = v"
| "similarity NaN = 0"

section \<open>Sample data\<close>

text \<open>Concrete catalogs, messages and collaborators on which the theorems are run.\<close>

definition tv :: product where
  "tv = \<lparr>product_id = ''p1'', name = ''4K TV'', category = ''video'', description = ''a 4K tv'',
          price = 300, imageUrl = [], affiliateUrl = [], features = [''hdr'']\<rparr>"

definition in_voice_session :: chat_interface where
  "in_voice_session =
     initial\<lparr>mode := VoiceMode, isVoiceActive := True, audioContextRef := Some (Running, Running),
             voiceSessionRef := Some SessionOpen, micStreams := 1, openContexts := 2,
             nextStartTimeRef := 4\<rparr>"


definition mic_two :: product where
  "mic_two = \<lparr>product_id = ''2'', name = ''Studio Mic'', category = ''audio'',
      description = ''a condenser microphone'', price = 129, imageUrl = [], affiliateUrl = [],
      features = [''usb'']\<rparr>"

definition mic_one :: product where
  "mic_one = \<lparr>product_id = ''1'', name = ''Travel Mic'', category = ''audio'',
      description = ''a pocket microphone'', price = 59, imageUrl = [], affiliateUrl = [],
      features = [''usb'']\<rparr>"


definition no_candidate :: services where
  "no_candidate =
     \<lparr>readProducts = Inr [tv], embed = (\<lambda>texts. Ok (map (\<lambda>t. [1, 0]) texts)),
      chat = (\<lambda>prompt. Ok None), show_price = (\<lambda>x. ''300'')\<rparr>"

definition hello :: chat_interface where
  "hello = initial\<lparr>inputText := ''hello''\<rparr>"

text \<open>A session in which the turn for \<open>hi\<close> is suspended and the user has typed again.\<close>

definition busy :: chat_interface where
  "busy = initial\<lparr>messages := [user_message 1 ''hi''], isTyping := True, chatSessionRef := True,
                  inputText := ''more''\<rparr>"

definition busy_fn :: chat_interface where
  "busy_fn = initial\<lparr>messages := [user_message 1 ''hi''], isTyping := True, inputText := ''more''\<rparr>"

text \<open>A recommendation of a product that is not in the catalog, as a reply and as a tool
  call of the voice channel.\<close>

definition missing_call :: function_call where
  "missing_call =
     \<lparr>fc_id = ''call-1'', fc_name = ''recommend_product'',
      fc_args = \<lparr>productId = ''missing'', reasoning = ''it fits''\<rparr>\<rparr>"

definition missing_reply :: ai_response where
  "missing_reply = \<lparr>response_text = Some ''Try this one.'', functionCalls = Some [missing_call]\<rparr>"

definition missing_tool_message :: live_message where
  "missing_tool_message = \<lparr>toolCall = Some [missing_call], audio = None, interrupted = False\<rparr>"

section \<open>Properties of cosine similarity\<close>

lemma reduce_from_squares:
  "reduce_from (\<lambda>acc val i. acc + val * val) a i xs = a + (\<Sum>x\<leftarrow>xs. x * x)"
  by (induction xs arbitrary: a i) (simp_all add: add.assoc)

lemma reduce_squares: "sqrt (reduce (\<lambda>acc val i. acc + val * val) 0 xs) = magnitude xs"
  by (simp add: reduce_def magnitude_def reduce_from_squares)

lemma reduce_from_dot:
  "length xs \<le> length (drop i vecB) \<Longrightarrow>
   reduce_from (\<lambda>acc val i. num_add acc (num_mul (Num val) (item vecB i))) (Num a) i xs
     = Num (a + dot xs (drop i vecB))"
proof (induction xs arbitrary: a i)
  case Nil
  then show ?case by (simp add: dot_def)
next
  case (Cons x xs)
  from Cons.prems have i: "i < length vecB" by simp
  then have d: "drop i vecB = vecB ! i # drop (Suc i) vecB"
    by (simp add: Cons_nth_drop_Suc)
  from Cons.prems have "length xs \<le> length (drop (Suc i) vecB)" by simp
  from Cons.IH [OF this] i show ?case
    by (simp add: item_def d dot_def algebra_simps)
qed

lemma reduce_dot:
  "length vecA \<le> length vecB \<Longrightarrow>
   reduce (\<lambda>acc val i. num_add acc (num_mul (Num val) (item vecB i))) (Num 0) vecA
     = Num (dot vecA vecB)"
  using reduce_from_dot [of vecA 0 vecB 0] by (simp add: reduce_def)

lemma reduce_from_NaN:
  "reduce_from (\<lambda>acc val i. num_add acc (num_mul (Num val) (item vecB i))) NaN i xs = NaN"
  by (induction xs arbitrary: i) simp_all

lemma reduce_from_beyond:
  "i \<le> length vecB \<Longrightarrow> length vecB < i + length xs \<Longrightarrow>
   reduce_from (\<lambda>acc val i. num_add acc (num_mul (Num val) (item vecB i))) (Num a) i xs = NaN"
proof (induction xs arbitrary: a i)
  case Nil
  then show ?case by simp
next
  case (Cons x xs)
  show ?case
  proof (cases "i < length vecB")
    case True
    with Cons.prems have "Suc i \<le> length vecB" "length vecB < Suc i + length xs" by simp_all
    from Cons.IH [OF this] True show ?thesis by (simp add: item_def)
  next
    case False
    then have "item vecB i = NaN" by (simp add: item_def)
    then show ?thesis by (simp add: reduce_from_NaN)
  qed
qed

lemma cosineSimilarity_short_second:
  "length b < length a \<Longrightarrow> magnitude a \<noteq> 0 \<Longrightarrow> magnitude b \<noteq> 0 \<Longrightarrow>
   cosineSimilarity a b = NaN"
  using reduce_from_beyond [where vecB = b and i = 0 and xs = a and a = 0]
  by (simp add: cosineSimilarity_def Let_def reduce_squares) (simp add: reduce_def)



section \<open>Properties of the lexical ranker\<close>






section \<open>Properties of the voice playback\<close>





section \<open>Properties of a text turn\<close>

text \<open>A greeting whose call fails ends with one assistant message as well, with the fixed
  text of the greeting, and with the busy flag down.\<close>

lemma failed_greeting_fallback:
  "messages (initChat_resume products now Throws st) =
     messages st @
     [\<lparr>message_id = decimal now, role = Assistant, content = greeting_fallback_text,
       timestamp = now, recommendation = None, reason = None\<rparr>] \<and>
   \<not> isTyping (initChat_resume products now Throws st)"
  by (simp add: initChat_resume_def addMessage_def)

lemma failed_greeting_fallback_fn:
  "call_failed outcome \<Longrightarrow>
   messages (initChat_fn_resume now outcome st) =
     messages st @
     [\<lparr>message_id = decimal now, role = Assistant, content = greeting_fallback_text,
       timestamp = now, recommendation = None, reason = None\<rparr>] \<and>
   \<not> isTyping (initChat_fn_resume now outcome st)"
  by (simp add: initChat_fn_resume_def addMessage_def call_failed_def split: awaited.splits)

text \<open>
  Claim C4.  A submission that is accepted (non-blank input, no turn in flight) and whose
  model call fails ends with the user's message followed by exactly one assistant
  message, which has the fixed fallback text and no recommendation; the messages that
  were there before are kept in front, in their order; the busy flag is down; and the
  next non-blank submission is accepted.  This holds for the component that calls the
  model itself (the call throws) and for the one that calls the retrieval function (the
  \<open>fetch\<close> throws or answers with a status that is not ok).
\<close>

theorem failed_turn_fallback:
  assumes "trim (inputText st) \<noteq> []" and "\<not> isTyping st"
  shows
    "(let (st1, request) = handleTextSubmit_start products now st;
          st2 = handleTextSubmit_resume products later Throws st1
      in request \<noteq> None \<and>
         messages st2 = messages st @ [user_message now (trim (inputText st)), fallback_message later] \<and>
         \<not> isTyping st2 \<and>
         (trim t \<noteq> [] \<longrightarrow>
            snd (handleTextSubmit_start products now' (st2\<lparr>inputText := t\<rparr>)) \<noteq> None)) \<and>
     (call_failed outcome \<longrightarrow>
       (let (st1, request) = handleTextSubmit_fn_start now st;
            st2 = handleTextSubmit_fn_resume later outcome st1
        in request \<noteq> None \<and>
           messages st2 = messages st @ [user_message now (trim (inputText st)), fallback_message later] \<and>
           \<not> isTyping st2 \<and>
           (trim t \<noteq> [] \<longrightarrow>
              snd (handleTextSubmit_fn_start now' (st2\<lparr>inputText := t\<rparr>)) \<noteq> None)))"
  using assms
  by (simp add: handleTextSubmit_start_def handleTextSubmit_resume_def
        handleTextSubmit_fn_start_def handleTextSubmit_fn_resume_def
        addMessage_def Let_def user_message_def fallback_message_def call_failed_def
      split: awaited.splits)

lemma trim_hello: "trim ''hello'' = ''hello''"
  by code_simp

lemma trim_again: "trim ''again'' = ''again''"
  by code_simp

theorem failed_turn_fallback_witness:
  "trim (inputText hello) \<noteq> [] \<and> \<not> isTyping hello \<and>
   messages (handleTextSubmit_resume [tv] 2 Throws (fst (handleTextSubmit_start [tv] 1 hello)))
     = [user_message 1 ''hello'', fallback_message 2] \<and>
   call_failed (Resolves \<lparr>statusCode = 500, body = ErrorBody ''Internal server error''\<rparr>) \<and>
   messages (handleTextSubmit_fn_resume 2
       (Resolves \<lparr>statusCode = 500, body = ErrorBody ''Internal server error''\<rparr>)
       (fst (handleTextSubmit_fn_start 1 hello)))
     = [user_message 1 ''hello'', fallback_message 2]"
proof -
  have h1: "trim (inputText hello) \<noteq> []" by (simp add: hello_def trim_hello)
  have h2: "\<not> isTyping hello" by (simp add: hello_def initial_def)
  have h3: "call_failed (Resolves \<lparr>statusCode = 500, body = ErrorBody ''Internal server error''\<rparr>)"
    by (simp add: call_failed_def response_ok_def)
  have m: "messages hello = []" "trim (inputText hello) = ''hello''"
    by (simp_all add: hello_def initial_def trim_hello)
  from failed_turn_fallback [OF h1 h2, of "[tv]" 1 2 "''again''" 3
      "Resolves \<lparr>statusCode = 500, body = ErrorBody ''Internal server error''\<rparr>"] h1 h2 h3 m
  show ?thesis
    by (simp add: Let_def split_beta)
qed

section \<open>Properties of the recommendation protocol\<close>

lemma find_product_None: "find_product products i = None \<longleftrightarrow> i \<notin> product_id ` set products"
  by (auto simp: find_product_def find_None_iff)

lemma unresolved_tool_calls:
  "\<forall>fc \<in> set calls. productId (fc_args fc) \<notin> product_id ` set products \<Longrightarrow>
   messages (foldl (handle_tool_call products now) st calls) = messages st \<and>
   alerts (foldl (handle_tool_call products now) st calls) = alerts st"
proof (induction calls arbitrary: st)
  case Nil
  show ?case by simp
next
  case (Cons fc calls)
  from Cons.prems have "find_product products (productId (fc_args fc)) = None"
    by (simp add: find_product_None)
  then have "messages (handle_tool_call products now st fc) = messages st"
            "alerts (handle_tool_call products now st fc) = alerts st"
    by (simp_all add: handle_tool_call_def Let_def)
  with Cons show ?case by simp
qed

lemma onmessage_messages:
  "messages (onmessage products now t m st) =
   messages (case toolCall m of Some calls \<Rightarrow> foldl (handle_tool_call products now) st calls
             | None \<Rightarrow> st)"
  "alerts (onmessage products now t m st) =
   alerts (case toolCall m of Some calls \<Rightarrow> foldl (handle_tool_call products now) st calls
           | None \<Rightarrow> st)"
  by (simp_all add: onmessage_def Let_def schedule_segment_def interrupt_def
        split: option.splits prod.splits)

text \<open>
  Claim C5.  When the first function call of a model response is \<open>recommend_product\<close>
  with a product id that no product of the catalog has, the turn appends the response
  text, if it is not empty, as an assistant message without a recommendation (the
  message keeps the reasoning string in its \<open>reason\<close> field, which is shown only next to a
  recommendation), and nothing otherwise; it shows no alert and does not append the
  fallback message.  On the voice channel a tool call whose ids do not resolve appends no
  message and shows no alert.
\<close>

theorem unresolved_recommendation_dropped:
  "(functionCalls response = Some (call # calls) \<and> fc_name call = ''recommend_product'' \<and>
    productId (fc_args call) \<notin> product_id ` set products \<longrightarrow>
      (let st' = handleTextSubmit_resume products now (Resolves response) st;
           text = (case response_text response of Some t \<Rightarrow> t | None \<Rightarrow> [])
       in messages st' =
            messages st @
            (if text = [] then []
             else [\<lparr>message_id = decimal now, role = Assistant, content = text, timestamp = now,
                    recommendation = None, reason = Some (reasoning (fc_args call))\<rparr>]) \<and>
          alerts st' = alerts st)) \<and>
   (toolCall m = Some calls' \<and>
    (\<forall>fc \<in> set calls'. productId (fc_args fc) \<notin> product_id ` set products) \<longrightarrow>
      messages (onmessage products now t m st) = messages st \<and>
      alerts (onmessage products now t m st) = alerts st)"
proof (intro conjI impI)
  assume a: "functionCalls response = Some (call # calls) \<and> fc_name call = ''recommend_product'' \<and>
    productId (fc_args call) \<notin> product_id ` set products"
  then have "find_product products (productId (fc_args call)) = None"
    by (simp add: find_product_None)
  with a show "let st' = handleTextSubmit_resume products now (Resolves response) st;
           text = (case response_text response of Some t \<Rightarrow> t | None \<Rightarrow> [])
       in messages st' =
            messages st @
            (if text = [] then []
             else [\<lparr>message_id = decimal now, role = Assistant, content = text, timestamp = now,
                    recommendation = None, reason = Some (reasoning (fc_args call))\<rparr>]) \<and>
          alerts st' = alerts st"
    by (simp add: handleTextSubmit_resume_def processAiResponse_def addMessage_def Let_def)
next
  assume b: "toolCall m = Some calls' \<and>
    (\<forall>fc \<in> set calls'. productId (fc_args fc) \<notin> product_id ` set products)"
  with unresolved_tool_calls [of calls' products now st]
  show "messages (onmessage products now t m st) = messages st"
       "alerts (onmessage products now t m st) = alerts st"
    by (simp_all add: onmessage_messages)
qed

theorem unresolved_recommendation_dropped_witness:
  "functionCalls missing_reply = Some [missing_call] \<and>
   fc_name missing_call = ''recommend_product'' \<and>
   productId (fc_args missing_call) \<notin> product_id ` set [tv] \<and>
   messages (handleTextSubmit_resume [tv] 2 (Resolves missing_reply) initial) =
     [\<lparr>message_id = decimal 2, role = Assistant, content = ''Try this one.'', timestamp = 2,
       recommendation = None, reason = Some ''it fits''\<rparr>] \<and>
   toolCall missing_tool_message = Some [missing_call] \<and>
   messages (onmessage [tv] 2 0 missing_tool_message in_voice_session) = []"
proof -
  have h: "functionCalls missing_reply = Some (missing_call # []) \<and>
           fc_name missing_call = ''recommend_product'' \<and>
           productId (fc_args missing_call) \<notin> product_id ` set [tv]"
    by (simp add: missing_reply_def missing_call_def tv_def)
  have g: "toolCall missing_tool_message = Some [missing_call] \<and>
           (\<forall>fc \<in> set [missing_call]. productId (fc_args fc) \<notin> product_id ` set [tv])"
    by (simp add: missing_tool_message_def missing_call_def tv_def)
  have t: "response_text missing_reply = Some ''Try this one.''"
          "reasoning (fc_args missing_call) = ''it fits''"
          "messages initial = []" "messages in_voice_session = []"
    by (simp_all add: missing_reply_def missing_call_def initial_def in_voice_session_def)
  from unresolved_recommendation_dropped
         [of missing_reply missing_call "[]" "[tv]" 2 initial missing_tool_message
             "[missing_call]" 0]
       unresolved_recommendation_dropped
         [of missing_reply missing_call "[]" "[tv]" 2 in_voice_session missing_tool_message
             "[missing_call]" 0]
       h g t
  show ?thesis by (simp add: Let_def)
qed

lemma processAiResponse_appends:
  "messages (processAiResponse products now response st) = messages st \<or>
   (\<exists>m. messages (processAiResponse products now response st) = messages st @ [m] \<and>
        role m = Assistant \<and> (content m \<noteq> [] \<or> recommendation m \<noteq> None))"
  by (auto simp: processAiResponse_def addMessage_def Let_def split: prod.splits)

text \<open>
  Claim C6.  The component that calls the model with a tool never appends an assistant
  message with empty text and no recommendation (\<open>processAiResponse_appends\<close>).  The
  component that calls the retrieval function does: when the function answers with
  status 200 and the model's reply holds no candidate text, the turn appends an assistant
  message whose text is empty and which has no recommendation.
\<close>

theorem empty_reply_appended:
  "text_turn no_candidate (Some ''key'') 1 2 hello =
     (initial\<lparr>messages :=
        [user_message 1 ''hello'',
         \<lparr>message_id = decimal 2, role = Assistant, content = [], timestamp = 2,
          recommendation = None, reason = None\<rparr>]\<rparr>,
      [ReadProducts, EmbedCall [''hello'', product_doc tv],
       ChatCall (augmented_prompt (product_context no_candidate [(tv, Num 1)]) ''hello'')])"
  by (simp add: text_turn_def handleTextSubmit_fn_start_def handleTextSubmit_fn_resume_def
        handler_def handler_try_def getEmbeddings_def no_candidate_def trim_hello hello_def
        initial_def addMessage_def user_message_def response_ok_def Let_def
        rank_products_def cosineSimilarity_def reduce_def item_def similarity_at_def js_sort_def
        candidate_text_def)

section \<open>Properties of the retrieval function\<close>




section \<open>Starting the voice session\<close>

text \<open>
  Claim C9.  In the component with the live voice session, a start in which the
  microphone is granted and the channel fails to open does put the mode back to text,
  but it leaves the microphone stream live and the two audio contexts open and
  referenced, and it shows no notice: the failure goes to the console only.
\<close>

theorem failed_voice_start_leaves_resources:
  "toggleMode True False initial =
     initial\<lparr>audioContextRef := Some (Running, Running),
             console := [''Failed to start voice:''], micStreams := 1, openContexts := 2\<rparr> \<and>
   mode (toggleMode True False initial) = TextMode \<and>
   alerts (toggleMode True False initial) = []"
  by (simp add: toggleMode_def startVoiceSession_def initial_def Let_def)

lemma failed_voice_start_fn:
  "toggleMode_fn initial = initial\<lparr>alerts := [voice_notice]\<rparr>"
  by (simp add: toggleMode_fn_def startVoiceSession_fn_def initial_def)

lemma microphone_denied:
  "startVoiceSession False channelOpens st =
     st\<lparr>console := console st @ [''Failed to start voice:''], mode := TextMode\<rparr>"
  by (simp add: startVoiceSession_def)

section \<open>Properties of the two rankers\<close>

text \<open>
  \<open>js_sort\<close> keeps the elements of its input.  With a comparator that sorts in
  descending order of a key, its result is in non-increasing order of the key and
  elements of equal key keep their order (the sort is stable).  Sorting ids by a
  comparator that looks the ids up is sorting the things the ids stand for.
\<close>

lemma set_js_insert: "set (js_insert cmp x ys) = insert x (set ys)"
  by (induction ys) auto

lemma set_js_sort: "set (js_sort cmp xs) = set xs"
  by (induction xs) (simp_all add: js_sort_def set_js_insert)

lemma length_js_insert: "length (js_insert cmp x ys) = Suc (length ys)"
  by (induction ys) auto

lemma length_js_sort: "length (js_sort cmp xs) = length xs"
  by (induction xs) (simp_all add: js_sort_def length_js_insert)

lemma js_insert_sorted:
  fixes f :: "'a \<Rightarrow> real"
  assumes "\<forall>y \<in> set ys. positive (cmp x y) = (f x < f y)"
    and "sorted_wrt (\<lambda>a b. f b \<le> f a) ys"
  shows "sorted_wrt (\<lambda>a b. f b \<le> f a) (js_insert cmp x ys)"
  using assms
proof (induction ys)
  case Nil
  show ?case by simp
next
  case (Cons y ys)
  show ?case
  proof (cases "positive (cmp x y)")
    case True
    with Cons.prems have "f x < f y" by simp
    moreover from Cons have "sorted_wrt (\<lambda>a b. f b \<le> f a) (js_insert cmp x ys)" by simp
    ultimately show ?thesis
      using True Cons.prems by (auto simp: set_js_insert)
  next
    case False
    with Cons.prems have "f y \<le> f x" by simp
    with False Cons.prems show ?thesis by fastforce
  qed
qed

lemma descending_by_Cons:
  "descending_by f cmp (x # xs) \<Longrightarrow>
   descending_by f cmp xs \<and> (\<forall>y \<in> set xs. positive (cmp x y) = (f x < f y))"
  by (simp add: descending_by_def)

lemma js_sort_sorted:
  fixes f :: "'a \<Rightarrow> real"
  shows "descending_by f cmp xs \<Longrightarrow> sorted_wrt (\<lambda>a b. f b \<le> f a) (js_sort cmp xs)"
proof (induction xs)
  case Nil
  show ?case by (simp add: js_sort_def)
next
  case (Cons x xs)
  from descending_by_Cons [OF Cons.prems] Cons.IH
  have "sorted_wrt (\<lambda>a b. f b \<le> f a) (js_sort cmp xs)"
    and "\<forall>y \<in> set (js_sort cmp xs). positive (cmp x y) = (f x < f y)"
    by (simp_all add: set_js_sort)
  then have "sorted_wrt (\<lambda>a b. f b \<le> f a) (js_insert cmp x (js_sort cmp xs))"
    by (intro js_insert_sorted)
  then show ?case
    by (simp add: js_sort_def)
qed

lemma js_insert_filter:
  fixes f :: "'a \<Rightarrow> real"
  shows "\<forall>y \<in> set ys. positive (cmp x y) = (f x < f y) \<Longrightarrow>
   filter (\<lambda>y. f y = k) (js_insert cmp x ys) =
     (if f x = k then x # filter (\<lambda>y. f y = k) ys else filter (\<lambda>y. f y = k) ys)"
  by (induction ys) auto

lemma js_sort_stable:
  fixes f :: "'a \<Rightarrow> real"
  shows "descending_by f cmp xs \<Longrightarrow>
   filter (\<lambda>y. f y = k) (js_sort cmp xs) = filter (\<lambda>y. f y = k) xs"
proof (induction xs)
  case Nil
  show ?case by (simp add: js_sort_def)
next
  case (Cons x xs)
  from descending_by_Cons [OF Cons.prems]
  have "\<forall>y \<in> set (js_sort cmp xs). positive (cmp x y) = (f x < f y)"
    by (simp add: set_js_sort)
  then have "filter (\<lambda>y. f y = k) (js_insert cmp x (js_sort cmp xs)) =
     (if f x = k then x # filter (\<lambda>y. f y = k) (js_sort cmp xs)
      else filter (\<lambda>y. f y = k) (js_sort cmp xs))"
    by (rule js_insert_filter)
  with Cons.IH descending_by_Cons [OF Cons.prems]
  show ?case by (simp add: js_sort_def)
qed

lemma js_insert_map:
  "\<forall>y \<in> set ys. cmp' (h x) (h y) = cmp x y \<Longrightarrow>
   js_insert cmp' (h x) (map h ys) = map h (js_insert cmp x ys)"
  by (induction ys) auto

lemma js_sort_map:
  "\<forall>a \<in> set xs. \<forall>b \<in> set xs. cmp' (h a) (h b) = cmp a b \<Longrightarrow>
   js_sort cmp' (map h xs) = map h (js_sort cmp xs)"
proof (induction xs)
  case Nil
  show ?case by (simp add: js_sort_def)
next
  case (Cons x xs)
  then have ih: "js_sort cmp' (map h xs) = map h (js_sort cmp xs)" by simp
  from Cons.prems have "\<forall>y \<in> set (js_sort cmp xs). cmp' (h x) (h y) = cmp x y"
    by (simp add: set_js_sort)
  then have "js_insert cmp' (h x) (map h (js_sort cmp xs)) = map h (js_insert cmp x (js_sort cmp xs))"
    by (rule js_insert_map)
  with ih show ?case
    by (simp add: js_sort_def)
qed


text \<open>
  The embedding ranker, given one embedding for the query and one of the same dimension
  for each product, returns at most three products in non-increasing order of
  similarity, and is a prefix of a stable arrangement of the catalog.
\<close>

lemma sorted_wrt_take_prefix: "sorted_wrt R xs \<Longrightarrow> sorted_wrt R (take n xs)"
proof -
  assume "sorted_wrt R xs"
  then have "sorted_wrt R (take n xs @ drop n xs)" by simp
  then show ?thesis unfolding sorted_wrt_append by blast
qed

lemma cosineSimilarity_number: "length a \<le> length b \<Longrightarrow> cosineSimilarity a b \<noteq> NaN"
  by (simp add: cosineSimilarity_def Let_def reduce_dot)

lemma paired_by_position:
  "length similarities = length products \<Longrightarrow>
   map (\<lambda>(i, product). (product, similarity_at similarities i)) (zip [0..<length products] products)
     = zip products similarities"
  by (rule nth_equalityI) (simp_all add: similarity_at_def)

lemma by_similarity_descending:
  "\<forall>x \<in> set xs. snd x \<noteq> NaN \<Longrightarrow>
   descending_by (\<lambda>x. similarity (snd x)) (\<lambda>a b. num_sub (snd b) (snd a)) xs"
proof -
  assume n: "\<forall>x \<in> set xs. snd x \<noteq> NaN"
  have "positive (num_sub (snd b) (snd a)) = (similarity (snd a) < similarity (snd b))"
    if "a \<in> set xs" "b \<in> set xs" for a b
  proof -
    from n that obtain u v where "snd a = Num u" "snd b = Num v"
      by (metis number.exhaust)
    then show ?thesis by simp
  qed
  then show ?thesis by (simp add: descending_by_def)
qed

lemma rank_products_ranked:
  assumes "embeddings = q # pes" and "length pes = length products"
    and "\<forall>e \<in> set pes. length e = length q"
  shows "length (rank_products products embeddings) \<le> 3"
    and "sorted_wrt (\<lambda>a b. similarity (snd b) \<le> similarity (snd a))
           (rank_products products embeddings)"
    and "\<exists>rest. \<forall>k.
           filter (\<lambda>x. similarity (snd x) = k) (rank_products products embeddings @ rest) =
           filter (\<lambda>x. similarity (snd x) = k) (zip products (map (cosineSimilarity q) pes))"
proof -
  let ?sims = "map (cosineSimilarity q) pes"
  let ?paired = "zip products ?sims"
  let ?cmp = "\<lambda>a b :: product \<times> number. num_sub (snd b) (snd a)"
  have r: "rank_products products embeddings = take 3 (js_sort ?cmp ?paired)"
    using assms(1,2) by (simp add: rank_products_def Let_def paired_by_position)
  have "\<forall>x \<in> set ?paired. snd x \<noteq> NaN"
  proof
    fix x assume "x \<in> set ?paired"
    then have "(fst x, snd x) \<in> set ?paired" by simp
    then have "snd x \<in> set ?sims" by (rule set_zip_rightD)
    then obtain e where "e \<in> set pes" "snd x = cosineSimilarity q e" by auto
    with assms(3) show "snd x \<noteq> NaN" by (simp add: cosineSimilarity_number)
  qed
  then have d: "descending_by (\<lambda>x. similarity (snd x)) ?cmp ?paired"
    by (rule by_similarity_descending)
  show "length (rank_products products embeddings) \<le> 3" by (simp add: r)
  from js_sort_sorted [OF d]
  show "sorted_wrt (\<lambda>a b. similarity (snd b) \<le> similarity (snd a))
          (rank_products products embeddings)"
    by (simp add: r sorted_wrt_take_prefix)
  have "\<forall>k. filter (\<lambda>x. similarity (snd x) = k)
              (rank_products products embeddings @ drop 3 (js_sort ?cmp ?paired)) =
            filter (\<lambda>x. similarity (snd x) = k) ?paired"
    using js_sort_stable [OF d] by (simp add: r del: filter_append)
  then show "\<exists>rest. \<forall>k.
           filter (\<lambda>x. similarity (snd x) = k) (rank_products products embeddings @ rest) =
           filter (\<lambda>x. similarity (snd x) = k) ?paired"
    by blast
qed

text \<open>
  The lexical ranker never returns more than three products.  For a catalog whose ids
  are distinct, are not array indices and are not \<open>__proto__\<close>, it returns the first
  three of the products with a positive score, sorted by descending score with the
  stable sort, that is with ties in the order of the catalog.
\<close>

lemma scores_table:
  assumes "distinct (map fst acc @ map product_id ps)"
    and "\<forall>p \<in> set ps. product_id p \<noteq> ''__proto__''"
  shows "foldl (record_score qw) acc ps =
           acc @ map (\<lambda>p. (product_id p, product_score qw p))
                   (filter (\<lambda>p. 0 < product_score qw p) ps)"
  using assms
proof (induction ps arbitrary: acc)
  case Nil
  show ?case by simp
next
  case (Cons p ps)
  show ?case
  proof (cases "0 < product_score qw p")
    case True
    from Cons.prems have "product_id p \<notin> set (map fst acc)" "product_id p \<noteq> ''__proto__''"
      by auto
    then have s: "record_score qw acc p = acc @ [(product_id p, product_score qw p)]"
      using True by (simp add: record_score_def obj_set_def Let_def)
    from Cons.prems have "distinct (map fst (acc @ [(product_id p, product_score qw p)]) @
                                    map product_id ps)"
      by auto
    from Cons.IH [OF this] Cons.prems(2) True s show ?thesis by simp
  next
    case False
    then have s: "record_score qw acc p = acc" by (simp add: record_score_def Let_def)
    from Cons.prems have "distinct (map fst acc @ map product_id ps)" by auto
    from Cons.IH [OF this] Cons.prems(2) False s show ?thesis by simp
  qed
qed

lemma object_keys_in_creation_order:
  "\<forall>k \<in> set (map fst obj). \<not> is_array_index k \<Longrightarrow> object_keys obj = map fst obj"
proof -
  assume a: "\<forall>k \<in> set (map fst obj). \<not> is_array_index k"
  then have "filter is_array_index (map fst obj) = []"
    by (simp add: filter_empty_conv)
  moreover from a have "filter (\<lambda>k. \<not> is_array_index k) (map fst obj) = map fst obj"
    by (simp add: filter_id_conv)
  ultimately show ?thesis by (simp add: object_keys_def Let_def)
qed

lemma find_product_own:
  "distinct (map product_id ps) \<Longrightarrow> p \<in> set ps \<Longrightarrow> find_product ps (product_id p) = Some p"
  by (induction ps) (auto simp: find_product_def)

lemma map_filter_find_product:
  "distinct (map product_id ps) \<Longrightarrow> set xs \<subseteq> set ps \<Longrightarrow>
   List.map_filter (find_product ps) (map product_id xs) = xs"
  by (induction xs) (simp_all add: List.map_filter_simps find_product_own)

lemma length_map_filter: "length (List.map_filter f xs) \<le> length xs"
  by (simp add: List.map_filter_def)

lemma findRelevantProducts_length: "length (findRelevantProducts query ps) \<le> 3"
proof (cases "filter (\<lambda>w. length w > 2) (split_ws (toLowerCase query)) = []")
  case True
  then show ?thesis by (simp add: findRelevantProducts_def)
next
  case False
  let ?ids = "take 3 (js_sort
      (\<lambda>a b. num_sub
          (score_of (foldl (record_score (filter (\<lambda>w. length w > 2) (split_ws (toLowerCase query)))) [] ps) b)
          (score_of (foldl (record_score (filter (\<lambda>w. length w > 2) (split_ws (toLowerCase query)))) [] ps) a))
      (object_keys (foldl (record_score (filter (\<lambda>w. length w > 2) (split_ws (toLowerCase query)))) [] ps)))"
  have "length (List.map_filter (find_product ps) ?ids) \<le> length ?ids"
    by (rule length_map_filter)
  also have "\<dots> \<le> 3" by simp
  finally show ?thesis using False by (simp add: findRelevantProducts_def Let_def)
qed

lemma findRelevantProducts_ranked:
  assumes "distinct (map product_id ps)"
    and "\<forall>p \<in> set ps. \<not> is_array_index (product_id p) \<and> product_id p \<noteq> ''__proto__''"
  shows "findRelevantProducts query ps =
           take 3 (js_sort (by_lexical_score query)
                     (filter (\<lambda>p. 0 < lexical_score query p) ps))"
proof (cases "filter (\<lambda>w. length w > 2) (split_ws (toLowerCase query)) = []")
  case True
  then have "lexical_score query p = 0" for p
    by (simp add: lexical_score_def product_score_def)
  with True show ?thesis
    by (simp add: findRelevantProducts_def js_sort_def)
next
  case False
  let ?qw = "filter (\<lambda>w. length w > 2) (split_ws (toLowerCase query))"
  let ?P = "filter (\<lambda>p. 0 < lexical_score query p) ps"
  let ?scores = "map (\<lambda>p. (product_id p, product_score ?qw p)) ?P"
  let ?cmp = "\<lambda>a b. num_sub (score_of ?scores b) (score_of ?scores a)"
  have t: "foldl (record_score ?qw) [] ps = ?scores"
    using scores_table [of "[]" ps ?qw] assms by (simp add: lexical_score_def)
  have f: "map fst ?scores = map product_id ?P" by (simp add: o_def)
  have k: "object_keys ?scores = map product_id ?P"
    using assms(2) by (subst object_keys_in_creation_order) (auto simp: o_def)
  have dP: "distinct (map product_id ?P)"
    using assms(1) by (simp add: distinct_map_filter)
  have sc: "score_of ?scores (product_id p) = Num (real (lexical_score query p))"
    if "p \<in> set ?P" for p
  proof -
    from that have "(product_id p, product_score ?qw p) \<in> set ?scores" by auto
    with dP have "map_of ?scores (product_id p) = Some (product_score ?qw p)"
      by (intro map_of_is_SomeI) (simp_all add: o_def)
    then show ?thesis by (simp add: score_of_def obj_get_def lexical_score_def)
  qed
  have "\<forall>a \<in> set ?P. \<forall>b \<in> set ?P. ?cmp (product_id a) (product_id b) = by_lexical_score query a b"
    using sc by (simp add: by_lexical_score_def)
  then have s: "js_sort ?cmp (map product_id ?P) = map product_id (js_sort (by_lexical_score query) ?P)"
    by (rule js_sort_map)
  have "set (take 3 (js_sort (by_lexical_score query) ?P)) \<subseteq> set ps"
    using set_take_subset [of 3 "js_sort (by_lexical_score query) ?P"]
    by (auto simp: set_js_sort)
  from map_filter_find_product [OF assms(1) this] False show ?thesis
    by (simp add: findRelevantProducts_def Let_def t k s take_map)
qed

lemma by_lexical_score_descending:
  "descending_by (\<lambda>p. real (lexical_score query p)) (by_lexical_score query) xs"
  by (simp add: descending_by_def by_lexical_score_def)

lemma findRelevantProducts_sorted_stable:
  assumes "distinct (map product_id ps)"
    and "\<forall>p \<in> set ps. \<not> is_array_index (product_id p) \<and> product_id p \<noteq> ''__proto__''"
  shows "sorted_wrt (\<lambda>a b. lexical_score query b \<le> lexical_score query a)
           (findRelevantProducts query ps)"
    and "\<exists>rest. \<forall>k.
           filter (\<lambda>p. lexical_score query p = k) (findRelevantProducts query ps @ rest) =
           filter (\<lambda>p. lexical_score query p = k) (filter (\<lambda>p. 0 < lexical_score query p) ps)"
proof -
  let ?P = "filter (\<lambda>p. 0 < lexical_score query p) ps"
  let ?S = "js_sort (by_lexical_score query) ?P"
  note r = findRelevantProducts_ranked [OF assms, of query]
  note d = by_lexical_score_descending [of query ?P]
  from js_sort_sorted [OF d]
  have "sorted_wrt (\<lambda>a b. lexical_score query b \<le> lexical_score query a) ?S" by simp
  then show "sorted_wrt (\<lambda>a b. lexical_score query b \<le> lexical_score query a)
               (findRelevantProducts query ps)"
    by (simp add: r sorted_wrt_take_prefix)
  have "filter (\<lambda>p. lexical_score query p = k) (take 3 ?S @ drop 3 ?S) =
        filter (\<lambda>p. lexical_score query p = k) ?P" for k
    using js_sort_stable [OF d, of "real k"] by simp
  then show "\<exists>rest. \<forall>k.
           filter (\<lambda>p. lexical_score query p = k) (findRelevantProducts query ps @ rest) =
           filter (\<lambda>p. lexical_score query p = k) ?P"
    unfolding r by blast
qed

text \<open>
  Claim C1.  Both rankers return at most three results in non-increasing order of score
  (\<open>rank_products_ranked\<close>, \<open>findRelevantProducts_length\<close>,
  \<open>findRelevantProducts_sorted_stable\<close>), and the embedding ranker breaks ties in the
  order of the catalog.  The lexical ranker does not always: with the catalog
  \<open>[mic_two, mic_one]\<close>, whose ids are \<open>2\<close> and \<open>1\<close>, and the query \<open>mic\<close>, both
  products score the same, and it returns \<open>mic_one\<close> before \<open>mic_two\<close>: the keys of the
  score table that are array indices are listed in numeric order, not in the order of
  the catalog.  The embedding ranker, on the same catalog with equal similarities, keeps
  the order of the catalog.
\<close>

theorem lexical_ties_not_in_catalog_order:
  "findRelevantProducts ''mic'' [mic_two, mic_one] = [mic_one, mic_two] \<and>
   product_score [''mic''] mic_two = product_score [''mic''] mic_one \<and>
   map fst (rank_products [mic_two, mic_one] [[1, 0], [1, 1], [1, 1]]) = [mic_two, mic_one]"
proof -
  have "findRelevantProducts ''mic'' [mic_two, mic_one] = [mic_one, mic_two] \<and>
        product_score [''mic''] mic_two = product_score [''mic''] mic_one"
    by code_simp
  moreover
  have "map fst (rank_products [mic_two, mic_one] [[1, 0], [1, 1], [1, 1]]) = [mic_two, mic_one]"
    by (simp add: rank_products_def cosineSimilarity_def reduce_def item_def similarity_at_def
          js_sort_def Let_def)
  ultimately show ?thesis by simp
qed

section \<open>The busy flag\<close>

lemma pending_single:
  "length (ps @ p # ps') \<le> 1 \<Longrightarrow> ps = [] \<and> ps' = []"
  by (cases ps) auto

lemma one_turn_cases:
  assumes "one_turn (products, st, ps)"
  obtains "ps = []" "\<not> isTyping st"
  | captured where "ps = [Turn captured]" "isTyping st" "messages st \<noteq> []"
  | captured where "ps = [Greeting captured]" "isTyping st" "products \<noteq> []"
proof (cases ps)
  case Nil
  with assms that(1) show ?thesis by (simp add: one_turn_def)
next
  case (Cons p qs)
  with assms have qs: "qs = []" by (simp add: one_turn_def)
  show ?thesis
  proof (cases p)
    case (Greeting c)
    with assms Cons qs that(3) show ?thesis by (simp add: one_turn_def)
  next
    case (Turn c)
    with assms Cons qs that(2) show ?thesis by (simp add: one_turn_def)
  qed
qed

lemma reachable_one_turn: "reachable c \<Longrightarrow> one_turn c"
proof (induction rule: reachable.induct)
  case (mount products st request)
  then show ?case
    by (auto simp: one_turn_def initChat_start_def initial_def sent_def split: if_splits)
next
  case (catalog_loaded st ps products st' request)
  from catalog_loaded.IH show ?case
  proof (cases rule: one_turn_cases)
    case 1
    with catalog_loaded.hyps(2) show ?thesis
      by (auto simp: one_turn_def initChat_start_def sent_def split: if_splits)
  next
    case (2 captured)
    with catalog_loaded.hyps(2) show ?thesis
      by (auto simp: one_turn_def initChat_start_def sent_def split: if_splits)
  next
    case (3 captured)
    then show ?thesis by simp
  qed
next
  case (typed products st ps t)
  then show ?case by (simp add: one_turn_def)
next
  case (submit products st ps now st' request)
  from submit.IH show ?case
  proof (cases rule: one_turn_cases)
    case 1
    with submit.hyps(2) show ?thesis
      by (auto simp: one_turn_def handleTextSubmit_start_def sent_def addMessage_def Let_def
               split: if_splits)
  next
    case (2 captured)
    with submit.hyps(2) show ?thesis
      by (auto simp: one_turn_def handleTextSubmit_start_def sent_def)
  next
    case (3 captured)
    with submit.hyps(2) show ?thesis
      by (auto simp: one_turn_def handleTextSubmit_start_def sent_def)
  qed
next
  case (turn_resumes products st ps captured ps' now outcome)
  then have "ps = [] \<and> ps' = []"
    by (intro pending_single [of ps "Turn captured" ps']) (simp add: one_turn_def)
  then show ?case
    by (simp add: one_turn_def handleTextSubmit_resume_def Let_def)
next
  case (greeting_resumes products st ps captured ps' now outcome)
  then have "ps = [] \<and> ps' = []"
    by (intro pending_single [of ps "Greeting captured" ps']) (simp add: one_turn_def)
  then show ?case
    by (simp add: one_turn_def initChat_resume_def Let_def)
qed

lemma reachable_fn_one_turn: "reachable_fn c \<Longrightarrow> one_turn c"
proof (induction rule: reachable_fn.induct)
  case (mount_fn products st request)
  then show ?case
    by (auto simp: one_turn_def initChat_fn_start_def initial_def sent_def split: if_splits)
next
  case (catalog_loaded_fn st ps products st' request)
  from catalog_loaded_fn.IH show ?case
  proof (cases rule: one_turn_cases)
    case 1
    with catalog_loaded_fn.hyps(2) show ?thesis
      by (auto simp: one_turn_def initChat_fn_start_def sent_def split: if_splits)
  next
    case (2 captured)
    with catalog_loaded_fn.hyps(2) show ?thesis
      by (auto simp: one_turn_def initChat_fn_start_def sent_def split: if_splits)
  next
    case (3 captured)
    then show ?thesis by simp
  qed
next
  case (typed_fn products st ps t)
  then show ?case by (simp add: one_turn_def)
next
  case (submit_fn products st ps now st' request)
  from submit_fn.IH show ?case
  proof (cases rule: one_turn_cases)
    case 1
    with submit_fn.hyps(2) show ?thesis
      by (auto simp: one_turn_def handleTextSubmit_fn_start_def sent_def addMessage_def Let_def
               split: if_splits)
  next
    case (2 captured)
    with submit_fn.hyps(2) show ?thesis
      by (auto simp: one_turn_def handleTextSubmit_fn_start_def sent_def)
  next
    case (3 captured)
    with submit_fn.hyps(2) show ?thesis
      by (auto simp: one_turn_def handleTextSubmit_fn_start_def sent_def)
  qed
next
  case (turn_resumes_fn products st ps captured ps' now outcome)
  then have "ps = [] \<and> ps' = []"
    by (intro pending_single [of ps "Turn captured" ps']) (simp add: one_turn_def)
  then show ?case
    by (simp add: one_turn_def handleTextSubmit_fn_resume_def Let_def)
next
  case (greeting_resumes_fn products st ps captured ps' now outcome)
  then have "ps = [] \<and> ps' = []"
    by (intro pending_single [of ps "Greeting captured" ps']) (simp add: one_turn_def)
  then show ?case
    by (simp add: one_turn_def initChat_fn_resume_def Let_def)
qed

text \<open>
  Claim C8.  In every state a text session can reach, of either component, the typing
  flag is up exactly when a call (a turn or the greeting) is suspended, and at most one
  call is suspended.  While one is, a submission changes nothing and sends nothing: no
  second turn begins before the suspended call has resumed, which is where it appends
  its message and lowers the flag.
\<close>

theorem busy_flag:
  "(reachable (products, st, ps) \<longrightarrow>
      (isTyping st \<longleftrightarrow> ps \<noteq> []) \<and> length ps \<le> 1 \<and>
      (ps \<noteq> [] \<longrightarrow> handleTextSubmit_start products now st = (st, None))) \<and>
   (reachable_fn (products, st, ps) \<longrightarrow>
      (isTyping st \<longleftrightarrow> ps \<noteq> []) \<and> length ps \<le> 1 \<and>
      (ps \<noteq> [] \<longrightarrow> handleTextSubmit_fn_start now st = (st, None)))"
proof (intro conjI impI)
  assume "reachable (products, st, ps)"
  then have i: "one_turn (products, st, ps)" by (rule reachable_one_turn)
  then show "isTyping st \<longleftrightarrow> ps \<noteq> []" "length ps \<le> 1"
    by (simp_all add: one_turn_def)
  assume "ps \<noteq> []"
  with i show "handleTextSubmit_start products now st = (st, None)"
    by (simp add: one_turn_def handleTextSubmit_start_def)
next
  assume "reachable_fn (products, st, ps)"
  then have i: "one_turn (products, st, ps)" by (rule reachable_fn_one_turn)
  then show "isTyping st \<longleftrightarrow> ps \<noteq> []" "length ps \<le> 1"
    by (simp_all add: one_turn_def)
  assume "ps \<noteq> []"
  with i show "handleTextSubmit_fn_start now st = (st, None)"
    by (simp add: one_turn_def handleTextSubmit_fn_start_def)
qed

lemma trim_hi: "trim ''hi'' = ''hi''"
  by code_simp

lemma no_context_for_hi: "findRelevantProducts ''hi'' [] = []"
  by code_simp

lemma busy_reachable: "reachable ([], busy, [Turn []])"
proof -
  have "initChat_start [] initial = (initial, None)"
    by (simp add: initChat_start_def)
  from reachable.mount [OF this] have "reachable ([], initial, [])"
    by (simp add: sent_def)
  from reachable.typed [OF this, of "''hi''"]
  have r: "reachable ([], initial\<lparr>inputText := ''hi''\<rparr>, [])" .
  have "handleTextSubmit_start [] 1 (initial\<lparr>inputText := ''hi''\<rparr>) =
          (initial\<lparr>messages := [user_message 1 ''hi''], isTyping := True, chatSessionRef := True\<rparr>,
           Some ''hi'')"
    by (simp add: handleTextSubmit_start_def trim_hi no_context_for_hi addMessage_def
          user_message_def initial_def augmented_user_message_def Let_def)
  from reachable.submit [OF r this]
  have "reachable ([], initial\<lparr>messages := [user_message 1 ''hi''], isTyping := True,
                                chatSessionRef := True\<rparr>, [Turn []])"
    by (simp add: sent_def)
  from reachable.typed [OF this, of "''more''"] show ?thesis
    by (simp add: busy_def)
qed

lemma busy_fn_reachable: "reachable_fn ([], busy_fn, [Turn []])"
proof -
  have "initChat_fn_start [] initial = (initial, None)"
    by (simp add: initChat_fn_start_def)
  from reachable_fn.mount_fn [OF this] have "reachable_fn ([], initial, [])"
    by (simp add: sent_def)
  from reachable_fn.typed_fn [OF this, of "''hi''"]
  have r: "reachable_fn ([], initial\<lparr>inputText := ''hi''\<rparr>, [])" .
  have "handleTextSubmit_fn_start 1 (initial\<lparr>inputText := ''hi''\<rparr>) =
          (initial\<lparr>messages := [user_message 1 ''hi''], isTyping := True\<rparr>, Some ''hi'')"
    by (simp add: handleTextSubmit_fn_start_def trim_hi addMessage_def
          user_message_def initial_def Let_def)
  from reachable_fn.submit_fn [OF r this]
  have "reachable_fn ([], initial\<lparr>messages := [user_message 1 ''hi''], isTyping := True\<rparr>,
                      [Turn []])"
    by (simp add: sent_def)
  from reachable_fn.typed_fn [OF this, of "''more''"] show ?thesis
    by (simp add: busy_fn_def)
qed

theorem busy_flag_witness:
  "reachable ([], busy, [Turn []]) \<and> isTyping busy \<and>
   handleTextSubmit_start [] 2 busy = (busy, None) \<and>
   reachable_fn ([], busy_fn, [Turn []]) \<and> isTyping busy_fn \<and>
   handleTextSubmit_fn_start 2 busy_fn = (busy_fn, None)"
  using busy_flag [of "[]" busy "[Turn []]" 2] busy_flag [of "[]" busy_fn "[Turn []]" 2]
    busy_reachable busy_fn_reachable
  by simp

end
